theory Spec2Isabelle
  imports Main "HOL-Library.Word"
begin

section \<open>Managed values of the binding layer\<close>

text \<open>
  The two headers (\<^verbatim>\<open>TcpServer.h\<close> and the datagram server's header) are C++/CLI
  wrappers: every public method converts its managed arguments and calls the native
  object behind \<^verbatim>\<open>_session\<close> or \<^verbatim>\<open>_server\<close>. The native classes
  (\<^verbatim>\<open>CppServer::Asio::TCPSession\<close>, \<^verbatim>\<open>TCPServer\<close>, \<^verbatim>\<open>UDPServer\<close>) are only included,
  so each wrapper below takes the native call it makes as an argument, and the native
  object's state is a type variable.

  \<^item> \<^verbatim>\<open>Byte\<close> is an 8-bit word, \<^verbatim>\<open>int\<close> a 32-bit word and \<^verbatim>\<open>long long\<close> a 64-bit
    word, both read as two's complement by \<open>sint\<close>; \<^verbatim>\<open>size_t\<close> is a 64-bit word
    read by \<open>unat\<close> (a 64-bit target).
  \<^item> A handle \<^verbatim>\<open>array<Byte>^\<close> is an \<open>option\<close>: \<open>None\<close> is \<^verbatim>\<open>nullptr\<close>,
    \<open>Some xs\<close> an array with the elements \<open>xs\<close>.
  \<^item> A handle \<^verbatim>\<open>String^\<close> is modelled by the bytes that
    \<^verbatim>\<open>marshal_as<std::string>\<close> produces from it, again under \<open>option\<close>.
\<close>

type_synonym byte = "8 word"
type_synonym int32 = "32 word"
type_synonym int64 = "64 word"
type_synonym size_t = "64 word"

text \<open>The exceptions the wrappers can raise before they reach native code.\<close>

datatype exn = NullReferenceException | ArgumentNullException | IndexOutOfRangeException

text \<open>
  A pinned pointer into a managed array (or the \<^verbatim>\<open>data()\<close> pointer of a
  \<^verbatim>\<open>std::string\<close>): the array it points into and the index of the element it
  points at. Native code reads forward from that element.
\<close>

datatype native_ptr = Ptr (target: "byte list") (start: nat)

text \<open>\<^verbatim>\<open>buffer->Length\<close>: the number of elements, an \<^verbatim>\<open>int\<close>.\<close>

definition Length :: "byte list \<Rightarrow> int32" where
  "Length xs = word_of_nat (length xs)"

text \<open>
  \<^verbatim>\<open>buffer->GetLowerBound(0)\<close>: \<^verbatim>\<open>array<Byte>\<close> is a one-dimensional zero-based
  array, so the lower bound of dimension 0 is 0. The wrappers ask for no other dimension.
\<close>

definition GetLowerBound :: "byte list \<Rightarrow> int32 \<Rightarrow> int32" where
  "GetLowerBound xs dimension = 0"

text \<open>
  \<^verbatim>\<open>&buffer[i]\<close>: element access on a managed array is bounds-checked, also when only
  the address is taken. An index outside \<open>0 \<le> i < Length\<close> raises
  \<^verbatim>\<open>IndexOutOfRangeException\<close>; an empty array has no valid index at all.
\<close>

definition element_address :: "byte list \<Rightarrow> int32 \<Rightarrow> exn + native_ptr" where
  "element_address xs i =
     (if 0 \<le> sint i \<and> sint i < int (length xs)
      then Inr (Ptr xs (nat (sint i)))
      else Inl IndexOutOfRangeException)"

text \<open>\<^verbatim>\<open>(int)offset\<close>: the cast keeps the low 32 bits of the \<^verbatim>\<open>long long\<close>.\<close>

definition int_cast :: "int64 \<Rightarrow> int32" where
  "int_cast offset = ucast offset"

text \<open>An \<^verbatim>\<open>int\<close> argument passed for a \<^verbatim>\<open>long long\<close> parameter is sign-extended.\<close>

definition long_long_of_int :: "int32 \<Rightarrow> int64" where
  "long_long_of_int n = scast n"

text \<open>
  \<^verbatim>\<open>return (long long)native_result;\<close> in a method returning \<^verbatim>\<open>bool\<close>: the native
  \<^verbatim>\<open>bool\<close> is widened to 0 or 1 and the \<^verbatim>\<open>return\<close> converts it back by comparing
  with 0.
\<close>

definition bool_of_long_long_cast :: "bool \<Rightarrow> bool" where
  "bool_of_long_long_cast b = ((of_bool b :: int64) \<noteq> 0)"

text \<open>
  The line shared by every offset-taking overload:
  \<^verbatim>\<open>pin_ptr<Byte> ptr = &buffer[buffer->GetLowerBound(0) + (int)offset];\<close>
  A null handle fails at \<^verbatim>\<open>buffer->GetLowerBound\<close>; the sum is 32-bit \<^verbatim>\<open>int\<close>
  arithmetic.
\<close>

definition pin_index :: "byte list \<Rightarrow> int64 \<Rightarrow> int32" where
  "pin_index xs offset = GetLowerBound xs 0 + int_cast offset"

definition pin_buffer :: "byte list option \<Rightarrow> int64 \<Rightarrow> exn + native_ptr" where
  "pin_buffer buffer offset =
     (case buffer of
        None \<Rightarrow> Inl NullReferenceException
      | Some xs \<Rightarrow> element_address xs (pin_index xs offset))"

text \<open>
  \<^verbatim>\<open>std::string temp = marshal_as<std::string>(text);\<close> A null string is refused by
  the marshalling library with \<^verbatim>\<open>ArgumentNullException\<close>.
\<close>

definition marshal_as :: "byte list option \<Rightarrow> exn + byte list" where
  "marshal_as text = (case text of None \<Rightarrow> Inl ArgumentNullException | Some temp \<Rightarrow> Inr temp)"

text \<open>\<^verbatim>\<open>temp.size()\<close>, a \<^verbatim>\<open>size_t\<close>.\<close>

definition string_size :: "byte list \<Rightarrow> size_t" where
  "string_size temp = word_of_nat (length temp)"


section \<open>TcpSession::Send\<close>

text \<open>
  The native call \<^verbatim>\<open>_session->get()->Send(ptr, size)\<close> is the argument \<open>native\<close>: it
  takes the pointer, the size and the native session and returns the flag and the
  session afterwards. \<^verbatim>\<open>long long size\<close> reaches the \<^verbatim>\<open>size_t\<close> parameter with its
  64 bits unchanged.

  \<^verbatim>\<open>
  bool Send(array<Byte>^ buffer, long long offset, long long size)
  {
      pin_ptr<Byte> ptr = &buffer[buffer->GetLowerBound(0) + (int)offset];
      return _session->get()->Send(ptr, size);
  }
  \<close>
\<close>

type_synonym 's native_send = "native_ptr \<Rightarrow> size_t \<Rightarrow> 's \<Rightarrow> bool \<times> 's"

definition TcpSession_Send_offset ::
  "'s native_send \<Rightarrow> byte list option \<Rightarrow> int64 \<Rightarrow> int64 \<Rightarrow> 's \<Rightarrow> exn + bool \<times> 's" where
  "TcpSession_Send_offset native buffer offset sz session =
     (case pin_buffer buffer offset of
        Inl e \<Rightarrow> Inl e
      | Inr ptr \<Rightarrow> Inr (native ptr sz session))"

text \<open>\<^verbatim>\<open>bool Send(array<Byte>^ buffer) { return Send(buffer, 0, buffer->Length); }\<close>\<close>

definition TcpSession_Send ::
  "'s native_send \<Rightarrow> byte list option \<Rightarrow> 's \<Rightarrow> exn + bool \<times> 's" where
  "TcpSession_Send native buffer session =
     (case buffer of
        None \<Rightarrow> Inl NullReferenceException
      | Some xs \<Rightarrow> TcpSession_Send_offset native buffer 0 (long_long_of_int (Length xs)) session)"

text \<open>
  \<^verbatim>\<open>
  bool Send(String^ text)
  {
      std::string temp = marshal_as<std::string>(text);
      return _session->get()->Send(temp.data(), temp.size());
  }
  \<close>
\<close>

definition TcpSession_Send_text ::
  "'s native_send \<Rightarrow> byte list option \<Rightarrow> 's \<Rightarrow> exn + bool \<times> 's" where
  "TcpSession_Send_text native text session =
     (case marshal_as text of
        Inl e \<Rightarrow> Inl e
      | Inr temp \<Rightarrow> Inr (native (Ptr temp 0) (string_size temp) session))"


section \<open>TcpServer::Multicast\<close>

text \<open>
  \<^verbatim>\<open>
  bool Multicast(array<Byte>^ buffer, long long offset, long long size)
  {
      pin_ptr<Byte> ptr = &buffer[buffer->GetLowerBound(0) + (int)offset];
      return (long long)_server->get()->Multicast(ptr, size);
  }
  \<close>
\<close>

definition returning :: "bool \<times> 's \<Rightarrow> bool \<times> 's" where
  "returning r = (bool_of_long_long_cast (fst r), snd r)"

definition TcpServer_Multicast_offset ::
  "'s native_send \<Rightarrow> byte list option \<Rightarrow> int64 \<Rightarrow> int64 \<Rightarrow> 's \<Rightarrow> exn + bool \<times> 's" where
  "TcpServer_Multicast_offset native buffer offset sz server =
     (case pin_buffer buffer offset of
        Inl e \<Rightarrow> Inl e
      | Inr ptr \<Rightarrow> Inr (returning (native ptr sz server)))"

text \<open>\<^verbatim>\<open>bool Multicast(array<Byte>^ buffer) { return Multicast(buffer, 0, buffer->Length); }\<close>\<close>

definition TcpServer_Multicast ::
  "'s native_send \<Rightarrow> byte list option \<Rightarrow> 's \<Rightarrow> exn + bool \<times> 's" where
  "TcpServer_Multicast native buffer server =
     (case buffer of
        None \<Rightarrow> Inl NullReferenceException
      | Some xs \<Rightarrow>
          TcpServer_Multicast_offset native buffer 0 (long_long_of_int (Length xs)) server)"

definition TcpServer_Multicast_text ::
  "'s native_send \<Rightarrow> byte list option \<Rightarrow> 's \<Rightarrow> exn + bool \<times> 's" where
  "TcpServer_Multicast_text native text server =
     (case marshal_as text of
        Inl e \<Rightarrow> Inl e
      | Inr temp \<Rightarrow> Inr (returning (native (Ptr temp 0) (string_size temp) server)))"


section \<open>UdpServer::Multicast and UdpServer::Send\<close>

text \<open>
  The datagram server's \<^verbatim>\<open>Multicast\<close> overloads have the bodies of the connection
  server's. \<^verbatim>\<open>Send\<close> takes a \<^verbatim>\<open>UdpEndpoint^\<close> as well, a handle that may be null;
  \<^verbatim>\<open>endpoint->_endpoint.Value\<close> is read in the \<^verbatim>\<open>return\<close> statement, after the
  buffer has been pinned.

  \<^verbatim>\<open>
  bool Send(UdpEndpoint^ endpoint, array<Byte>^ buffer, long long offset, long long size)
  {
      pin_ptr<Byte> ptr = &buffer[buffer->GetLowerBound(0) + (int)offset];
      return (long long)_server->get()->Send(endpoint->_endpoint.Value, ptr, size);
  }
  \<close>
\<close>

definition UdpServer_Multicast_offset ::
  "'s native_send \<Rightarrow> byte list option \<Rightarrow> int64 \<Rightarrow> int64 \<Rightarrow> 's \<Rightarrow> exn + bool \<times> 's" where
  "UdpServer_Multicast_offset native buffer offset sz server =
     (case pin_buffer buffer offset of
        Inl e \<Rightarrow> Inl e
      | Inr ptr \<Rightarrow> Inr (returning (native ptr sz server)))"

definition UdpServer_Multicast ::
  "'s native_send \<Rightarrow> byte list option \<Rightarrow> 's \<Rightarrow> exn + bool \<times> 's" where
  "UdpServer_Multicast native buffer server =
     (case buffer of
        None \<Rightarrow> Inl NullReferenceException
      | Some xs \<Rightarrow>
          UdpServer_Multicast_offset native buffer 0 (long_long_of_int (Length xs)) server)"

definition UdpServer_Multicast_text ::
  "'s native_send \<Rightarrow> byte list option \<Rightarrow> 's \<Rightarrow> exn + bool \<times> 's" where
  "UdpServer_Multicast_text native text server =
     (case marshal_as text of
        Inl e \<Rightarrow> Inl e
      | Inr temp \<Rightarrow> Inr (returning (native (Ptr temp 0) (string_size temp) server)))"

type_synonym ('ep, 's) native_send_to = "'ep \<Rightarrow> native_ptr \<Rightarrow> size_t \<Rightarrow> 's \<Rightarrow> bool \<times> 's"

definition endpoint_value :: "'ep option \<Rightarrow> exn + 'ep" where
  "endpoint_value endpoint =
     (case endpoint of None \<Rightarrow> Inl NullReferenceException | Some ep \<Rightarrow> Inr ep)"

definition UdpServer_Send_offset ::
  "('ep, 's) native_send_to \<Rightarrow> 'ep option \<Rightarrow> byte list option \<Rightarrow> int64 \<Rightarrow> int64 \<Rightarrow> 's
     \<Rightarrow> exn + bool \<times> 's" where
  "UdpServer_Send_offset native endpoint buffer offset sz server =
     (case pin_buffer buffer offset of
        Inl e \<Rightarrow> Inl e
      | Inr ptr \<Rightarrow>
          (case endpoint_value endpoint of
             Inl e \<Rightarrow> Inl e
           | Inr ep \<Rightarrow> Inr (returning (native ep ptr sz server))))"

text \<open>
  \<^verbatim>\<open>
  bool Send(UdpEndpoint^ endpoint, array<Byte>^ buffer)
  { return Send(endpoint, buffer, 0, buffer->Length); }
  \<close>
\<close>

definition UdpServer_Send ::
  "('ep, 's) native_send_to \<Rightarrow> 'ep option \<Rightarrow> byte list option \<Rightarrow> 's \<Rightarrow> exn + bool \<times> 's" where
  "UdpServer_Send native endpoint buffer server =
     (case buffer of
        None \<Rightarrow> Inl NullReferenceException
      | Some xs \<Rightarrow>
          UdpServer_Send_offset native endpoint buffer 0 (long_long_of_int (Length xs)) server)"

text \<open>
  \<^verbatim>\<open>
  bool Send(UdpEndpoint^ endpoint, String^ text)
  {
      std::string temp = marshal_as<std::string>(text);
      return (long long)_server->get()->Send(endpoint->_endpoint.Value, temp.data(), temp.size());
  }
  \<close>
\<close>

definition UdpServer_Send_text ::
  "('ep, 's) native_send_to \<Rightarrow> 'ep option \<Rightarrow> byte list option \<Rightarrow> 's \<Rightarrow> exn + bool \<times> 's" where
  "UdpServer_Send_text native endpoint text server =
     (case marshal_as text of
        Inl e \<Rightarrow> Inl e
      | Inr temp \<Rightarrow>
          (case endpoint_value endpoint of
             Inl e \<Rightarrow> Inl e
           | Inr ep \<Rightarrow> Inr (returning (native ep (Ptr temp 0) (string_size temp) server))))"


section \<open>The truncated offset\<close>

text \<open>
  The offset of a call, truncated modulo \<open>2 ^ 32\<close> and read as a signed 32-bit number.
  This definition follows the description of the cast, not the code; \<open>pin_index\<close>
  above is the code.
\<close>

definition truncated_offset :: "int64 \<Rightarrow> int" where
  "truncated_offset offset = (sint offset + 2 ^ 31) mod 2 ^ 32 - 2 ^ 31"


section \<open>Virtual handlers and the session factory\<close>

text \<open>
  \<^verbatim>\<open>TcpSession\<close> and \<^verbatim>\<open>TcpServer\<close> are classes with virtual members that a deployer
  overrides in a subtype. An object is modelled by its method table: a record with one
  field per virtual member. The type \<open>'u\<close> is the state of the deployer's program, which
  a handler may change; a \<^verbatim>\<open>void\<close> handler is a function \<open>'u \<Rightarrow> 'u\<close>. Strings are
  byte strings as above.

  The virtual members of \<^verbatim>\<open>TcpSession\<close> (lines 129 to 175):
\<close>

record 'u TcpSession_object =
  OnConnected :: "'u \<Rightarrow> 'u"
  OnDisconnected :: "'u \<Rightarrow> 'u"
  OnReceived :: "byte list \<Rightarrow> 'u \<Rightarrow> 'u"
  OnSending :: "int64 \<Rightarrow> 'u \<Rightarrow> bool \<times> 'u"
  OnSent :: "int64 \<Rightarrow> int64 \<Rightarrow> 'u \<Rightarrow> 'u"
  OnEmpty :: "'u \<Rightarrow> 'u"
  OnError :: "int32 \<Rightarrow> byte list \<Rightarrow> byte list \<Rightarrow> 'u \<Rightarrow> 'u"

text \<open>
  An instance of the base class, \<^verbatim>\<open>gcnew TcpSession(this)\<close>: every handler has the
  body \<^verbatim>\<open>{}\<close>, and \<^verbatim>\<open>OnSending\<close> is \<^verbatim>\<open>{ return true; }\<close>.
\<close>

definition gcnew_TcpSession :: "'u TcpSession_object" where
  "gcnew_TcpSession =
     \<lparr>OnConnected = (\<lambda>u. u),
      OnDisconnected = (\<lambda>u. u),
      OnReceived = (\<lambda>buffer u. u),
      OnSending = (\<lambda>sz u. (True, u)),
      OnSent = (\<lambda>sent pending u. u),
      OnEmpty = (\<lambda>u. u),
      OnError = (\<lambda>error category message u. u)\<rparr>"

text \<open>
  The \<^verbatim>\<open>internal\<close> entry points of \<^verbatim>\<open>TcpSession\<close> (lines 177 to 184), each a virtual
  call on \<^verbatim>\<open>this\<close>, for instance
  \<^verbatim>\<open>void InternalOnConnected() { OnConnected(); }\<close>
\<close>

definition InternalOnConnected :: "'u TcpSession_object \<Rightarrow> 'u \<Rightarrow> 'u" where
  "InternalOnConnected this = OnConnected this"

definition InternalOnDisconnected :: "'u TcpSession_object \<Rightarrow> 'u \<Rightarrow> 'u" where
  "InternalOnDisconnected this = OnDisconnected this"

definition InternalOnReceived :: "'u TcpSession_object \<Rightarrow> byte list \<Rightarrow> 'u \<Rightarrow> 'u" where
  "InternalOnReceived this buffer = OnReceived this buffer"

definition InternalOnSending :: "'u TcpSession_object \<Rightarrow> int64 \<Rightarrow> 'u \<Rightarrow> bool \<times> 'u" where
  "InternalOnSending this sent = OnSending this sent"

definition InternalOnSent :: "'u TcpSession_object \<Rightarrow> int64 \<Rightarrow> int64 \<Rightarrow> 'u \<Rightarrow> 'u" where
  "InternalOnSent this sent pending = OnSent this sent pending"

definition InternalOnEmpty :: "'u TcpSession_object \<Rightarrow> 'u \<Rightarrow> 'u" where
  "InternalOnEmpty this = OnEmpty this"

definition InternalOnError ::
  "'u TcpSession_object \<Rightarrow> int32 \<Rightarrow> byte list \<Rightarrow> byte list \<Rightarrow> 'u \<Rightarrow> 'u" where
  "InternalOnError this error category message = OnError this error category message"

text \<open>
  The virtual members of \<^verbatim>\<open>TcpServer\<close> (lines 320 to 350). The server's handlers that
  share a name with a session's carry the suffix \<open>_server\<close>. The factory is
  \<^verbatim>\<open>virtual TcpSession^ CreateSession() { return gcnew TcpSession(this); }\<close>
\<close>

record 'u TcpServer_object =
  CreateSession :: "unit \<Rightarrow> 'u TcpSession_object"
  OnStarted :: "'u \<Rightarrow> 'u"
  OnStopped :: "'u \<Rightarrow> 'u"
  OnConnected_server :: "'u TcpSession_object \<Rightarrow> 'u \<Rightarrow> 'u"
  OnDisconnected_server :: "'u TcpSession_object \<Rightarrow> 'u \<Rightarrow> 'u"
  OnError_server :: "int32 \<Rightarrow> byte list \<Rightarrow> byte list \<Rightarrow> 'u \<Rightarrow> 'u"

definition gcnew_TcpServer :: "'u TcpServer_object" where
  "gcnew_TcpServer =
     \<lparr>CreateSession = (\<lambda>_. gcnew_TcpSession),
      OnStarted = (\<lambda>u. u),
      OnStopped = (\<lambda>u. u),
      OnConnected_server = (\<lambda>session u. u),
      OnDisconnected_server = (\<lambda>session u. u),
      OnError_server = (\<lambda>error category message u. u)\<rparr>"

text \<open>
  The \<^verbatim>\<open>internal\<close> entry points of \<^verbatim>\<open>TcpServer\<close> that concern sessions (lines 352
  to 358):
  \<^verbatim>\<open>TcpSession^ InternalCreateSession() { return CreateSession(); }\<close>
  \<^verbatim>\<open>void InternalOnConnected(TcpSession^ session) { OnConnected(session); }\<close>
  \<^verbatim>\<open>void InternalOnDisconnected(TcpSession^ session) { OnDisconnected(session); }\<close>
\<close>

definition InternalCreateSession :: "'u TcpServer_object \<Rightarrow> 'u TcpSession_object" where
  "InternalCreateSession this = CreateSession this ()"

definition InternalOnConnected_server ::
  "'u TcpServer_object \<Rightarrow> 'u TcpSession_object \<Rightarrow> 'u \<Rightarrow> 'u" where
  "InternalOnConnected_server this session = OnConnected_server this session"

definition InternalOnDisconnected_server ::
  "'u TcpServer_object \<Rightarrow> 'u TcpSession_object \<Rightarrow> 'u \<Rightarrow> 'u" where
  "InternalOnDisconnected_server this session = OnDisconnected_server this session"


subsection \<open>The native side of the bridge\<close>

text \<open>
  \<^verbatim>\<open>TcpServerEx\<close> and \<^verbatim>\<open>TcpSessionEx\<close> derive from the native classes and hold the
  managed object in \<^verbatim>\<open>gcroot<...> root\<close>. The header declares their overrides; the
  bodies are in the implementation file, which is not among the sources. A native session
  is modelled by its \<^verbatim>\<open>root\<close>.
\<close>

text \<open>
  Modelled from the spec: the body of \<^verbatim>\<open>TcpServerEx::CreateSession\<close>, declared at
  line 37. "the server must call this hook, not construct the base type directly": the
  override asks the managed server in \<^verbatim>\<open>root\<close> for the session.
\<close>

definition TcpServerEx_CreateSession :: "'u TcpServer_object \<Rightarrow> 'u TcpSession_object" where
  "TcpServerEx_CreateSession root = InternalCreateSession root"

text \<open>The notifications a native session passes on, with their managed arguments.\<close>

datatype notification =
    Session_Connected
  | Session_Disconnected
  | Session_Received "byte list"
  | Session_Sent int64 int64
  | Session_Empty
  | Session_Error int32 "byte list" "byte list"

text \<open>
  Modelled from the spec: the bodies of \<^verbatim>\<open>TcpSessionEx::onConnected\<close>,
  \<^verbatim>\<open>onDisconnected\<close>, \<^verbatim>\<open>onReceived\<close>, \<^verbatim>\<open>onSent\<close>, \<^verbatim>\<open>onEmpty\<close> and \<^verbatim>\<open>onError\<close>,
  declared at lines 22 to 27. "so that all notifications route to the deployer's
  specialized session": each override calls the matching \<^verbatim>\<open>internal\<close> entry point of
  the managed session in \<^verbatim>\<open>root\<close>.
\<close>

fun TcpSessionEx_on :: "notification \<Rightarrow> 'u TcpSession_object \<Rightarrow> 'u \<Rightarrow> 'u" where
  "TcpSessionEx_on Session_Connected root = InternalOnConnected root"
| "TcpSessionEx_on Session_Disconnected root = InternalOnDisconnected root"
| "TcpSessionEx_on (Session_Received buffer) root = InternalOnReceived root buffer"
| "TcpSessionEx_on (Session_Sent sent pending) root = InternalOnSent root sent pending"
| "TcpSessionEx_on Session_Empty root = InternalOnEmpty root"
| "TcpSessionEx_on (Session_Error error category message) root =
     InternalOnError root error category message"

text \<open>
  Modelled from the spec: the question a native session asks before a queued chunk is
  handed to the transport ("sending(size) -> bool"), answered by \<^verbatim>\<open>InternalOnSending\<close>
  of the managed session in \<^verbatim>\<open>root\<close>. The caller is in the implementation file.
\<close>

definition TcpSessionEx_sending :: "'u TcpSession_object \<Rightarrow> int64 \<Rightarrow> 'u \<Rightarrow> bool \<times> 'u" where
  "TcpSessionEx_sending root sz = InternalOnSending root sz"

text \<open>
  What the factory needs of a running server: the managed server object, the registered
  sessions in the order of their registration, and the state of the deployer's program.
\<close>

record 'u connection_server =
  root :: "'u TcpServer_object"
  sessions :: "'u TcpSession_object list"
  program :: 'u

text \<open>
  Modelled from the spec: an accepted connection, which is the native engine's. "on
  success, creates a session via the factory hook, attaches the accepted socket, registers
  the session, transitions it to Connected, fires the session connected notification".
  The session's own "connected" fires first, then the server's.
\<close>

definition accept_connection :: "'u connection_server \<Rightarrow> 'u connection_server" where
  "accept_connection srv =
     (let session = TcpServerEx_CreateSession (root srv);
          p1 = TcpSessionEx_on Session_Connected session (program srv);
          p2 = InternalOnConnected_server (root srv) session p1
      in srv\<lparr>sessions := sessions srv @ [session], program := p2\<rparr>)"

text \<open>
  Modelled from the spec: a notification for the registered session number \<open>i\<close>, fired by
  the native engine. Nothing happens for a number that is not registered.
\<close>

definition deliver :: "nat \<Rightarrow> notification \<Rightarrow> 'u connection_server \<Rightarrow> 'u connection_server" where
  "deliver i n srv =
     (if i < length (sessions srv)
      then srv\<lparr>program := TcpSessionEx_on n (sessions srv ! i) (program srv)\<rparr>
      else srv)"


section \<open>Pinning an array\<close>

lemma pin_index_cast: "sint (pin_index xs offset) = signed_take_bit 31 (sint offset)"
  by (simp add: pin_index_def GetLowerBound_def int_cast_def sint_uint
      signed_take_bit_eq_iff_take_bit_eq unsigned_ucast_eq take_bit_signed_take_bit
      flip: unsigned_take_bit_eq)

lemma pin_index_zero: "sint (pin_index xs 0) = 0"
  by (simp add: pin_index_cast)

lemma pin_buffer_empty: "pin_buffer (Some []) 0 = Inl IndexOutOfRangeException"
  by (simp add: pin_buffer_def element_address_def)

lemma pin_buffer_Some:
  "pin_buffer (Some xs) offset =
     (if 0 \<le> sint (pin_index xs offset) \<and> sint (pin_index xs offset) < int (length xs)
      then Inr (Ptr xs (nat (sint (pin_index xs offset))))
      else Inl IndexOutOfRangeException)"
  by (simp add: pin_buffer_def element_address_def)

text \<open>The \<^verbatim>\<open>(long long)\<close> cast of a native \<^verbatim>\<open>bool\<close> changes nothing.\<close>

lemma returning_id: "returning r = r"
  by (cases r) (simp add: returning_def bool_of_long_long_cast_def)

text \<open>A managed array has fewer than \<open>2 ^ 31\<close> elements; its length survives the widening.\<close>

lemma Length_widened:
  assumes "length xs < 2 ^ 31"
  shows "long_long_of_int (Length xs) = word_of_nat (length xs)"
proof -
  have "signed_take_bit 31 (int (length xs)) = int (length xs)"
    using assms by (intro signed_take_bit_int_eq_self) simp_all
  then show ?thesis
    by (simp add: long_long_of_int_def Length_def signed_of_nat)
qed

text \<open>
  A non-empty array goes to the native call whole: the pointer is at element 0, the size
  is the length, and the wrapper returns what the native call returns.
\<close>

lemma nonempty_array_is_passed_whole:
  assumes "xs \<noteq> []" and "length xs < 2 ^ 31"
  shows "TcpSession_Send session_send (Some xs) session =
           Inr (session_send (Ptr xs 0) (word_of_nat (length xs)) session)"
    and "TcpServer_Multicast server_multicast (Some xs) server =
           Inr (server_multicast (Ptr xs 0) (word_of_nat (length xs)) server)"
    and "UdpServer_Multicast udp_multicast (Some xs) udp =
           Inr (udp_multicast (Ptr xs 0) (word_of_nat (length xs)) udp)"
    and "UdpServer_Send udp_send (Some ep) (Some xs) udp' =
           Inr (udp_send ep (Ptr xs 0) (word_of_nat (length xs)) udp')"
  using assms
  by (simp_all add: TcpSession_Send_def TcpSession_Send_offset_def TcpServer_Multicast_def
      TcpServer_Multicast_offset_def UdpServer_Multicast_def UdpServer_Multicast_offset_def
      UdpServer_Send_def UdpServer_Send_offset_def endpoint_value_def returning_id
      pin_buffer_Some pin_index_zero Length_widened)


section \<open>Empty arrays\<close>

text \<open>
  C9. For every zero-length byte array the four public array overloads
  \<^verbatim>\<open>TcpSession::Send(buffer)\<close>, \<^verbatim>\<open>TcpServer::Multicast(buffer)\<close>,
  \<^verbatim>\<open>UdpServer::Send(endpoint, buffer)\<close> and \<^verbatim>\<open>UdpServer::Multicast(buffer)\<close> return no
  boolean: each evaluates \<^verbatim>\<open>&buffer[buffer->GetLowerBound(0) + 0]\<close>, which is out of
  range for the empty array, and raises \<^verbatim>\<open>IndexOutOfRangeException\<close>. The result does
  not depend on the native call, on the state of the native object or on the endpoint
  (null or not): the native send is never reached.
\<close>

theorem empty_array_raises:
  "TcpSession_Send session_send (Some []) session = Inl IndexOutOfRangeException \<and>
   TcpServer_Multicast server_multicast (Some []) server = Inl IndexOutOfRangeException \<and>
   UdpServer_Send udp_send endpoint (Some []) udp = Inl IndexOutOfRangeException \<and>
   UdpServer_Multicast udp_multicast (Some []) udp' = Inl IndexOutOfRangeException"
  by (simp add: TcpSession_Send_def TcpSession_Send_offset_def TcpServer_Multicast_def
      TcpServer_Multicast_offset_def UdpServer_Send_def UdpServer_Send_offset_def
      UdpServer_Multicast_def UdpServer_Multicast_offset_def pin_buffer_empty)

text \<open>
  C1, at the empty array. The documentation of \<^verbatim>\<open>TcpSession::Send\<close> promises
  \<^verbatim>\<open>true\<close> or \<^verbatim>\<open>false\<close>, and \<^verbatim>\<open>false\<close> for a session that is not connected. For the
  empty array the array overload returns neither, whatever the native session is and
  whatever the native \<^verbatim>\<open>Send\<close> would answer: it raises before the call. The text overload
  beside it has no such gap: the empty text reaches the native \<^verbatim>\<open>Send\<close> with size 0, and
  the caller gets its answer.
\<close>

theorem Send_empty_array_is_not_false:
  "TcpSession_Send session_send (Some []) session = Inl IndexOutOfRangeException \<and>
   TcpSession_Send session_send (Some []) session \<noteq> Inr (False, session) \<and>
   TcpSession_Send_text session_send (Some []) session =
     Inr (session_send (Ptr [] 0) 0 session)"
  by (simp add: TcpSession_Send_def TcpSession_Send_offset_def TcpSession_Send_text_def
      marshal_as_def string_size_def pin_buffer_empty)

text \<open>
  C8, at the empty array. \<^verbatim>\<open>UdpServer::Send(endpoint, buffer)\<close> and
  \<^verbatim>\<open>UdpServer::Multicast(buffer)\<close> are documented to return \<^verbatim>\<open>true\<close> or \<^verbatim>\<open>false\<close>.
  For the empty array (a datagram without payload) they return neither, started or not:
  they raise before the native call, so no write is submitted and no \<^verbatim>\<open>false\<close> comes
  back. The text overloads reach the native call with size 0.
\<close>

theorem datagram_empty_array_is_not_false:
  "UdpServer_Send udp_send endpoint (Some []) udp = Inl IndexOutOfRangeException \<and>
   UdpServer_Send udp_send endpoint (Some []) udp \<noteq> Inr (False, udp) \<and>
   UdpServer_Multicast udp_multicast (Some []) udp' = Inl IndexOutOfRangeException \<and>
   UdpServer_Multicast udp_multicast (Some []) udp' \<noteq> Inr (False, udp') \<and>
   UdpServer_Send_text udp_send (Some ep) (Some []) udp = Inr (udp_send ep (Ptr [] 0) 0 udp) \<and>
   UdpServer_Multicast_text udp_multicast (Some []) udp' =
     Inr (udp_multicast (Ptr [] 0) 0 udp')"
  by (simp add: UdpServer_Send_def UdpServer_Send_offset_def UdpServer_Multicast_def
      UdpServer_Multicast_offset_def UdpServer_Send_text_def UdpServer_Multicast_text_def
      marshal_as_def string_size_def endpoint_value_def returning_id pin_buffer_empty)


section \<open>Offsets beyond 32 bits\<close>

lemma pin_index_truncated: "sint (pin_index xs offset) = truncated_offset offset"
  by (simp add: pin_index_cast truncated_offset_def signed_take_bit_eq_take_bit_shift
      take_bit_eq_mod)

lemma truncated_offset_range:
  "- (2 ^ 31) \<le> truncated_offset offset \<and> truncated_offset offset < 2 ^ 31"
  unfolding truncated_offset_def
  using pos_mod_bound [of "2 ^ 32" "sint offset + 2 ^ 31"]
    pos_mod_sign [of "2 ^ 32" "sint offset + 2 ^ 31"]
  by simp

lemma truncated_offset_differs:
  "sint offset < - (2 ^ 31) \<or> 2 ^ 31 \<le> sint offset \<Longrightarrow> truncated_offset offset \<noteq> sint offset"
  using truncated_offset_range [of offset] by auto

text \<open>An offset that fits is used as it is.\<close>

lemma truncated_offset_fits:
  "- (2 ^ 31) \<le> sint offset \<Longrightarrow> sint offset < 2 ^ 31 \<Longrightarrow> truncated_offset offset = sint offset"
  by (simp add: truncated_offset_def flip: take_bit_eq_mod signed_take_bit_eq_take_bit_shift
      add: signed_take_bit_int_eq_self)

text \<open>
  C10. In \<^verbatim>\<open>TcpSession::Send(buffer, offset, size)\<close>,
  \<^verbatim>\<open>TcpServer::Multicast(buffer, offset, size)\<close> and
  \<^verbatim>\<open>UdpServer::Send(endpoint, buffer, offset, size)\<close> the 64-bit offset goes through
  \<^verbatim>\<open>(int)offset\<close> before it indexes the array. For every offset that does not fit in
  a signed 32-bit integer, the index that is pinned is the offset truncated modulo
  \<open>2 ^ 32\<close> and read as signed 32-bit, which is not the offset asked for. Where that index
  lies in the array, the native call receives the pointer to that element; where it does
  not, the access raises \<^verbatim>\<open>IndexOutOfRangeException\<close>.
\<close>

theorem offset_cast_truncates:
  assumes "sint offset < - (2 ^ 31) \<or> 2 ^ 31 \<le> sint offset"
  shows "sint (pin_index xs offset) = truncated_offset offset \<and>
         truncated_offset offset \<noteq> sint offset \<and>
         TcpSession_Send_offset session_send (Some xs) offset sz session =
           (if 0 \<le> truncated_offset offset \<and> truncated_offset offset < int (length xs)
            then Inr (session_send (Ptr xs (nat (truncated_offset offset))) sz session)
            else Inl IndexOutOfRangeException) \<and>
         TcpServer_Multicast_offset server_multicast (Some xs) offset sz server =
           (if 0 \<le> truncated_offset offset \<and> truncated_offset offset < int (length xs)
            then Inr (server_multicast (Ptr xs (nat (truncated_offset offset))) sz server)
            else Inl IndexOutOfRangeException) \<and>
         UdpServer_Send_offset udp_send (Some ep) (Some xs) offset sz udp =
           (if 0 \<le> truncated_offset offset \<and> truncated_offset offset < int (length xs)
            then Inr (udp_send ep (Ptr xs (nat (truncated_offset offset))) sz udp)
            else Inl IndexOutOfRangeException)"
  using truncated_offset_differs [OF assms]
  by (simp add: TcpSession_Send_offset_def TcpServer_Multicast_offset_def
      UdpServer_Send_offset_def pin_buffer_Some pin_index_truncated endpoint_value_def
      returning_id)

text \<open>
  The offset \<open>2 ^ 32 + 1\<close> on a three-byte array: the call is accepted and the native
  side receives the pointer to element 1. The native calls of the example record the
  arguments they are given.
\<close>

theorem offset_cast_truncates_witness:
  "2 ^ 31 \<le> sint (4294967297 :: int64) \<and>
   sint (pin_index [10, 20, 30] 4294967297) = 1 \<and>
   TcpSession_Send_offset (\<lambda>ptr n calls. (True, calls @ [(ptr, n)]))
       (Some [10, 20, 30]) 4294967297 2 []
     = Inr (True, [(Ptr [10, 20, 30] 1, 2)]) \<and>
   TcpServer_Multicast_offset (\<lambda>ptr n calls. (True, calls @ [(ptr, n)]))
       (Some [10, 20, 30]) 4294967297 2 []
     = Inr (True, [(Ptr [10, 20, 30] 1, 2)]) \<and>
   UdpServer_Send_offset (\<lambda>ep ptr n calls. (True, calls @ [(ep, ptr, n)]))
       (Some (7::nat)) (Some [10, 20, 30]) 4294967297 2 []
     = Inr (True, [(7, Ptr [10, 20, 30] 1, 2)])"
proof -
  have h: "sint (4294967297 :: int64) < - (2 ^ 31) \<or> 2 ^ 31 \<le> sint (4294967297 :: int64)"
    by simp
  have t: "truncated_offset 4294967297 = 1"
    by (simp add: truncated_offset_def)
  show ?thesis
    using offset_cast_truncates [OF h, of "[10, 20, 30]"
        "\<lambda>ptr n calls. (True, calls @ [(ptr, n)])" 2 "[]"
        "\<lambda>ptr n calls. (True, calls @ [(ptr, n)])" "[]"
        "\<lambda>ep ptr n calls. (True, calls @ [(ep, ptr, n)])" "7::nat" "[]"]
    by (simp add: t)
qed


section \<open>The factory hook\<close>

text \<open>
  C7. Whenever the server needs a session for an accepted connection it calls the
  overridable factory \<^verbatim>\<open>CreateSession\<close> (through \<^verbatim>\<open>InternalCreateSession\<close>) and does
  not construct the base \<^verbatim>\<open>TcpSession\<close> itself. So for every server object and every
  factory a deployer puts in its place, the session that is registered is the object the
  deployer's factory returned, and every notification of that session (connected,
  disconnected, received, sent, empty, error, and the sending question) runs the handler
  of that object; the server's own "connected" handler is given that object too.
\<close>

theorem factory_hook_decides_session:
  "InternalCreateSession (server\<lparr>CreateSession := factory\<rparr>) = factory () \<and>
   (let srv' = accept_connection (srv\<lparr>root := server\<lparr>CreateSession := factory\<rparr>\<rparr>);
        i = length (sessions srv)
    in sessions srv' = sessions srv @ [factory ()] \<and>
       program srv' =
         OnConnected_server server (factory ()) (OnConnected (factory ()) (program srv)) \<and>
       program (deliver i Session_Disconnected srv') =
         OnDisconnected (factory ()) (program srv') \<and>
       program (deliver i (Session_Received buffer) srv') =
         OnReceived (factory ()) buffer (program srv') \<and>
       program (deliver i (Session_Sent sent pending) srv') =
         OnSent (factory ()) sent pending (program srv') \<and>
       program (deliver i Session_Empty srv') = OnEmpty (factory ()) (program srv') \<and>
       program (deliver i (Session_Error error category message) srv') =
         OnError (factory ()) error category message (program srv') \<and>
       TcpSessionEx_sending (sessions srv' ! i) sz = OnSending (factory ()) sz)"
  by (simp add: Let_def accept_connection_def deliver_def TcpServerEx_CreateSession_def
      InternalCreateSession_def InternalOnConnected_def InternalOnConnected_server_def
      InternalOnDisconnected_def InternalOnReceived_def InternalOnSent_def InternalOnEmpty_def
      InternalOnError_def TcpSessionEx_sending_def InternalOnSending_def)

text \<open>
  A deployer's session that counts its connections, against the base session: the
  count moves only when the server is given the deployer's factory.
\<close>

lemma counting_session_example:
  "program (accept_connection
      \<lparr>root = gcnew_TcpServer\<lparr>CreateSession := (\<lambda>_. gcnew_TcpSession\<lparr>OnConnected := Suc\<rparr>)\<rparr>,
       sessions = [], program = (0::nat)\<rparr>) = 1 \<and>
   program (accept_connection \<lparr>root = gcnew_TcpServer, sessions = [], program = (0::nat)\<rparr>) = 0"
  by (simp add: accept_connection_def TcpServerEx_CreateSession_def InternalCreateSession_def
      InternalOnConnected_def InternalOnConnected_server_def gcnew_TcpServer_def
      gcnew_TcpSession_def)

end
